theory Spec2Isabelle
  imports
    Main
    "HOL-Library.Multiset"
    "HOL-Library.Sublist"
    "HOL-Library.Char_ord"
    "HOL-Library.List_Lexorder"
begin

section \<open>The Jellyfin media source of Home Assistant\<close>

text \<open>
  A shallow embedding of \<^verbatim>\<open>homeassistant/components/jellyfin/media_source.py\<close> and
  of the constants of \<^verbatim>\<open>const.py\<close> it reads. Every coroutine of the source runs its
  calls one after the other, so a coroutine is a function, and an exception is the left
  summand of its result.
\<close>

subsection \<open>Constants of const.py\<close>

definition DOMAIN :: string where
  "DOMAIN = ''jellyfin''"

definition COLLECTION_TYPE_MOVIES :: string where
  "COLLECTION_TYPE_MOVIES = ''movies''"

definition COLLECTION_TYPE_TVSHOWS :: string where
  "COLLECTION_TYPE_TVSHOWS = ''tvshows''"

definition COLLECTION_TYPE_MUSIC :: string where
  "COLLECTION_TYPE_MUSIC = ''music''"

definition SUPPORTED_COLLECTION_TYPES :: "string list" where
  "SUPPORTED_COLLECTION_TYPES = [COLLECTION_TYPE_MOVIES, COLLECTION_TYPE_TVSHOWS]"

definition MAX_STREAMING_BITRATE :: string where
  "MAX_STREAMING_BITRATE = ''140000000''"

text \<open>
  Modelled from the spec: the constant \<^verbatim>\<open>MEDIA_TYPE_AUDIO\<close>, which media_source.py
  imports from const.py and const.py does not define. The spec gives its value: only
  MediaType "Audio" is supported.
\<close>

definition MEDIA_TYPE_AUDIO :: string where
  "MEDIA_TYPE_AUDIO = ''Audio''"

text \<open>
  Modelled from the spec: the media classes \<^verbatim>\<open>MEDIA_CLASS_DIRECTORY\<close>,
  \<^verbatim>\<open>MEDIA_CLASS_ARTIST\<close>, \<^verbatim>\<open>MEDIA_CLASS_ALBUM\<close> and \<^verbatim>\<open>MEDIA_CLASS_TRACK\<close>, which
  media_source.py imports from \<^verbatim>\<open>media_player.const\<close> of the host platform. The spec
  has them as the classification tag of a node: directory, artist, album or track.
\<close>

datatype media_class =
  MEDIA_CLASS_DIRECTORY | MEDIA_CLASS_ARTIST | MEDIA_CLASS_ALBUM | MEDIA_CLASS_TRACK

subsection \<open>Items of the media server\<close>

text \<open>
  The source reads an item as a dictionary \<^verbatim>\<open>dict[str, Any]\<close> and indexes it with
  the keys below; a key that is absent raises \<^verbatim>\<open>KeyError\<close>. The keys are the
  \<^verbatim>\<open>ITEM_KEY_*\<close> constants of the source, \<^verbatim>\<open>MEDIA_SOURCE_KEY_PATH\<close> and the literal
  \<^verbatim>\<open>"Type"\<close>.

  Modelled from the spec: the strings of these keys, which const.py does not define. The
  spec lists the fields an item is read for: Id, Name, Type, CollectionType, IndexNumber,
  ImageTags (a mapping from image kind to tag), MediaType and MediaSources (a sequence of
  source descriptors, each with a Path). An item is a record with one optional field for
  each key, \<open>None\<close> where the dictionary does not hold the key; the field of the key
  \<^verbatim>\<open>Id\<close> is \<open>Id_field\<close>, \<open>Id\<close> being the identity relation of HOL.
\<close>

datatype item_key =
  ITEM_KEY_TYPE
  | ITEM_KEY_COLLECTION_TYPE
  | ITEM_KEY_ID
  | ITEM_KEY_IMAGE_TAGS
  | ITEM_KEY_INDEX_NUMBER
  | ITEM_KEY_MEDIA_SOURCES
  | ITEM_KEY_MEDIA_TYPE
  | ITEM_KEY_NAME
  | MEDIA_SOURCE_KEY_PATH

text \<open>
  The exceptions: \<^verbatim>\<open>BrowseError\<close> of the host platform with its message, which the
  source raises itself; \<^verbatim>\<open>KeyError\<close> and \<^verbatim>\<open>IndexError\<close> of Python, raised by an
  unchecked lookup; and \<^verbatim>\<open>ClientError\<close>, any exception of the wrapped client.
\<close>

datatype error =
  is_BrowseError: BrowseError string
  | KeyError item_key
  | IndexError
  | ClientError string

record media_source =
  Path :: "string option"

record item =
  Id_field :: "string option"
  Name :: "string option"
  Type :: "string option"
  CollectionType :: "string option"
  IndexNumber :: "int option"
  ImageTags :: "(string \<rightharpoonup> string) option"
  MediaType :: "string option"
  MediaSources :: "media_source list option"

text \<open>\<^verbatim>\<open>d[key]\<close> on a dictionary: the value, or \<^verbatim>\<open>KeyError\<close>.\<close>

fun getitem :: "item_key \<Rightarrow> 'a option \<Rightarrow> error + 'a" where
  "getitem k None = Inl (KeyError k)"
| "getitem k (Some v) = Inr v"

text \<open>Sequencing of two steps, the first of which may raise.\<close>

fun bind_result :: "'e + 'a \<Rightarrow> ('a \<Rightarrow> 'e + 'b) \<Rightarrow> 'e + 'b" where
  "bind_result (Inl e) f = Inl e"
| "bind_result (Inr x) f = f x"

text \<open>A list comprehension (or an appending loop) whose body may raise: the first exception ends it.\<close>

fun map_result :: "('a \<Rightarrow> 'e + 'b) \<Rightarrow> 'a list \<Rightarrow> 'e + 'b list" where
  "map_result f [] = Inr []"
| "map_result f (x # xs) =
     bind_result (f x) (\<lambda>y. bind_result (map_result f xs) (\<lambda>ys. Inr (y # ys)))"

text \<open>
  \<^verbatim>\<open>sorted(xs, key=lambda k: k[key])\<close>: Python computes the key of every element first
  (a missing key raises), then sorts stably by the keys, ascending.
\<close>

definition sorted_by :: "item_key \<Rightarrow> (item \<Rightarrow> 'k::linorder option) \<Rightarrow> item list \<Rightarrow> error + item list" where
  "sorted_by k f xs =
     (case those (map f xs) of
        None \<Rightarrow> Inl (KeyError k)
      | Some ks \<Rightarrow> Inr (map snd (sort_key fst (zip ks xs))))"

subsection \<open>The browse tree and the play target of the host platform\<close>

text \<open>
  Modelled from the spec: the classes \<^verbatim>\<open>BrowseMediaSource\<close> and \<^verbatim>\<open>PlayMedia\<close>, which
  media_source.py imports from \<^verbatim>\<open>media_source.models\<close> of the host platform. A node of
  the browse tree holds the keyword arguments the source constructs it with (an absent
  \<^verbatim>\<open>thumbnail\<close>, \<^verbatim>\<open>children\<close> or \<^verbatim>\<open>children_media_class\<close> is \<open>None\<close>); the selector
  of \<^verbatim>\<open>identifier\<close> is \<open>identifier_of\<close>. A play target is a URL and a MIME type.
\<close>

datatype BrowseMediaSource =
  BrowseMediaSource
    (domain: string)
    (identifier_of: "string option")
    (media_class: media_class)
    (media_content_type: string)
    (title: string)
    (can_play: bool)
    (can_expand: bool)
    (thumbnail: "string option")
    (children_media_class: "media_class option")
    (children: "BrowseMediaSource list option")

datatype PlayMedia = PlayMedia string string

text \<open>The two assignments \<^verbatim>\<open>result.children_media_class = c; result.children = cs\<close>.\<close>

fun set_children :: "media_class \<Rightarrow> BrowseMediaSource list \<Rightarrow> BrowseMediaSource \<Rightarrow> BrowseMediaSource" where
  "set_children c cs (BrowseMediaSource d i mc ct t cp ce th cmc ch) =
     BrowseMediaSource d i mc ct t cp ce th (Some c) (Some cs)"

text \<open>Every node of a tree: the node itself, then the nodes of its children, in order.\<close>

primrec all_nodes :: "BrowseMediaSource \<Rightarrow> BrowseMediaSource list" where
  "all_nodes (BrowseMediaSource d i mc ct t cp ce th cmc ch) =
     BrowseMediaSource d i mc ct t cp ce th cmc ch
       # (case map_option (map all_nodes) ch of None \<Rightarrow> [] | Some nss \<Rightarrow> concat nss)"

subsection \<open>The media source object\<close>

text \<open>The query of \<^verbatim>\<open>_get_children\<close> to the client's \<^verbatim>\<open>user_items\<close>.\<close>

record params =
  Recursive :: string
  ParentId :: string
  IncludeItemTypes :: string
  Fields :: "item_key option"

text \<open>
  \<^verbatim>\<open>JellyfinSource\<close>: the base URL (\<^verbatim>\<open>self.url\<close>), the three entries of
  \<^verbatim>\<open>self.client.config.data\<close> that are read, and the three calls of the wrapped client
  (\<^verbatim>\<open>self.api\<close>), each returning what the source reads of its answer (the item, or the
  list under \<^verbatim>\<open>"Items"\<close>) or the exception it raised.

  Taken as parameters with it: \<^verbatim>\<open>mimetypes.guess_type\<close> of the Python library (the
  first component of its result), and the constants \<^verbatim>\<open>ITEM_TYPE_*\<close> and
  \<^verbatim>\<open>MEDIA_TYPE_NONE\<close>, which media_source.py imports from const.py and const.py does
  not define.
\<close>

record JellyfinSource =
  url :: string
  auth_token :: string
  auth_user_id :: string
  app_device_id :: string
  get_item :: "string \<Rightarrow> error + item"
  get_media_folders :: "error + item list"
  user_items :: "string \<Rightarrow> params \<Rightarrow> error + item list"
  guess_type :: "string \<Rightarrow> string option"
  ITEM_TYPE_LIBRARY :: string
  ITEM_TYPE_ARTIST :: string
  ITEM_TYPE_ALBUM :: string
  ITEM_TYPE_AUDIO :: string
  MEDIA_TYPE_NONE :: string

definition JellyfinSource_name :: string where
  "JellyfinSource_name = ''Jellyfin''"

subsection \<open>MIME type and URLs\<close>

definition media_mime_type :: "(string \<Rightarrow> string option) \<Rightarrow> item \<Rightarrow> error + string" where
  "media_mime_type guess media_item =
     bind_result (getitem ITEM_KEY_MEDIA_SOURCES (MediaSources media_item)) (\<lambda>sources.
       case sources of
         [] \<Rightarrow> Inl IndexError
       | media_source # _ \<Rightarrow>
           bind_result (getitem MEDIA_SOURCE_KEY_PATH (Path media_source)) (\<lambda>path.
             case guess path of
               Some mime_type \<Rightarrow> Inr mime_type
             | None \<Rightarrow> Inl (BrowseError (''Unable to determine mime type for path '' @ path))))"

definition get_thumbnail_url :: "JellyfinSource \<Rightarrow> item \<Rightarrow> error + string option" where
  "get_thumbnail_url self media_item =
     bind_result (getitem ITEM_KEY_ID (Id_field media_item)) (\<lambda>item_id.
     bind_result (getitem ITEM_KEY_IMAGE_TAGS (ImageTags media_item)) (\<lambda>image_tags.
       case image_tags ''Primary'' of
         Some tag \<Rightarrow>
           Inr (Some (url self @ ''Items/'' @ item_id @ ''/Images/Primary?Tag='' @ tag
                      @ ''&api_key='' @ auth_token self))
       | None \<Rightarrow> Inr None))"

definition get_audio_stream_url :: "JellyfinSource \<Rightarrow> item \<Rightarrow> error + string" where
  "get_audio_stream_url self media_item =
     bind_result (getitem ITEM_KEY_ID (Id_field media_item)) (\<lambda>item_id.
       Inr (url self @ ''Audio/'' @ item_id @ ''/universal?UserId='' @ auth_user_id self
            @ ''&DeviceId='' @ app_device_id self @ ''&api_key='' @ auth_token self
            @ ''&MaxStreamingBitrate='' @ MAX_STREAMING_BITRATE))"

definition get_stream_url :: "JellyfinSource \<Rightarrow> item \<Rightarrow> error + string" where
  "get_stream_url self media_item =
     bind_result (getitem ITEM_KEY_MEDIA_TYPE (MediaType media_item)) (\<lambda>media_type.
       if media_type = MEDIA_TYPE_AUDIO then get_audio_stream_url self media_item
       else Inl (BrowseError (''Unsupported media type '' @ media_type)))"

definition async_resolve_media :: "JellyfinSource \<Rightarrow> string \<Rightarrow> error + PlayMedia" where
  "async_resolve_media self ident =
     bind_result (get_item self ident) (\<lambda>media_item.
     bind_result (get_stream_url self media_item) (\<lambda>stream_url.
     bind_result (media_mime_type (guess_type self) media_item) (\<lambda>mime_type.
       Inr (PlayMedia stream_url mime_type))))"

subsection \<open>Building the tree\<close>

definition get_children :: "JellyfinSource \<Rightarrow> string \<Rightarrow> string \<Rightarrow> error + item list" where
  "get_children self parent_id item_type =
     user_items self ''''
       \<lparr> Recursive = ''true'', ParentId = parent_id, IncludeItemTypes = item_type,
         Fields = (if item_type = ITEM_TYPE_AUDIO self then Some ITEM_KEY_MEDIA_SOURCES else None) \<rparr>"

definition build_track :: "JellyfinSource \<Rightarrow> item \<Rightarrow> error + BrowseMediaSource" where
  "build_track self track =
     bind_result (getitem ITEM_KEY_ID (Id_field track)) (\<lambda>track_id.
     bind_result (getitem ITEM_KEY_NAME (Name track)) (\<lambda>track_title.
     bind_result (media_mime_type (guess_type self) track) (\<lambda>mime_type.
     bind_result (get_thumbnail_url self track) (\<lambda>thumbnail_url.
       Inr (BrowseMediaSource DOMAIN (Some track_id) MEDIA_CLASS_TRACK mime_type track_title
              True False thumbnail_url None None)))))"

definition build_tracks :: "JellyfinSource \<Rightarrow> string \<Rightarrow> error + BrowseMediaSource list" where
  "build_tracks self album_id =
     bind_result (get_children self album_id (ITEM_TYPE_AUDIO self)) (\<lambda>tracks.
     bind_result (sorted_by ITEM_KEY_INDEX_NUMBER IndexNumber tracks) (\<lambda>tracks.
       map_result (build_track self) tracks))"

definition build_album :: "JellyfinSource \<Rightarrow> item \<Rightarrow> bool \<Rightarrow> error + BrowseMediaSource" where
  "build_album self album include_children =
     bind_result (getitem ITEM_KEY_ID (Id_field album)) (\<lambda>album_id.
     bind_result (getitem ITEM_KEY_NAME (Name album)) (\<lambda>album_title.
     bind_result (get_thumbnail_url self album) (\<lambda>thumbnail_url.
       let result = BrowseMediaSource DOMAIN (Some album_id) MEDIA_CLASS_ALBUM
                      (MEDIA_TYPE_NONE self) album_title False True thumbnail_url None None
       in if include_children
          then bind_result (build_tracks self album_id) (\<lambda>cs.
                 Inr (set_children MEDIA_CLASS_TRACK cs result))
          else Inr result)))"

definition build_albums :: "JellyfinSource \<Rightarrow> string \<Rightarrow> error + BrowseMediaSource list" where
  "build_albums self artist_id =
     bind_result (get_children self artist_id (ITEM_TYPE_ALBUM self)) (\<lambda>albums.
     bind_result (sorted_by ITEM_KEY_NAME Name albums) (\<lambda>albums.
       map_result (\<lambda>album. build_album self album False) albums))"

definition build_artist :: "JellyfinSource \<Rightarrow> item \<Rightarrow> bool \<Rightarrow> error + BrowseMediaSource" where
  "build_artist self artist include_children =
     bind_result (getitem ITEM_KEY_ID (Id_field artist)) (\<lambda>artist_id.
     bind_result (getitem ITEM_KEY_NAME (Name artist)) (\<lambda>artist_name.
     bind_result (get_thumbnail_url self artist) (\<lambda>thumbnail_url.
       let result = BrowseMediaSource DOMAIN (Some artist_id) MEDIA_CLASS_ARTIST
                      (MEDIA_TYPE_NONE self) artist_name False True thumbnail_url None None
       in if include_children
          then bind_result (build_albums self artist_id) (\<lambda>cs.
                 Inr (set_children MEDIA_CLASS_ALBUM cs result))
          else Inr result)))"

definition build_artists :: "JellyfinSource \<Rightarrow> string \<Rightarrow> error + BrowseMediaSource list" where
  "build_artists self library_id =
     bind_result (get_children self library_id (ITEM_TYPE_ARTIST self)) (\<lambda>artists.
     bind_result (sorted_by ITEM_KEY_NAME Name artists) (\<lambda>artists.
       map_result (\<lambda>artist. build_artist self artist False) artists))"

definition build_music_library :: "JellyfinSource \<Rightarrow> item \<Rightarrow> bool \<Rightarrow> error + BrowseMediaSource" where
  "build_music_library self library include_children =
     bind_result (getitem ITEM_KEY_ID (Id_field library)) (\<lambda>library_id.
     bind_result (getitem ITEM_KEY_NAME (Name library)) (\<lambda>library_name.
       let result = BrowseMediaSource DOMAIN (Some library_id) MEDIA_CLASS_DIRECTORY
                      (MEDIA_TYPE_NONE self) library_name False True None None None
       in if include_children
          then bind_result (build_artists self library_id) (\<lambda>cs.
                 Inr (set_children MEDIA_CLASS_ARTIST cs result))
          else Inr result))"

definition build_library :: "JellyfinSource \<Rightarrow> item \<Rightarrow> bool \<Rightarrow> error + BrowseMediaSource" where
  "build_library self library include_children =
     bind_result (getitem ITEM_KEY_COLLECTION_TYPE (CollectionType library)) (\<lambda>collection_type.
       if collection_type = COLLECTION_TYPE_MUSIC
       then build_music_library self library include_children
       else Inl (BrowseError (''Unsupported collection type '' @ collection_type)))"

definition get_libraries :: "JellyfinSource \<Rightarrow> error + item list" where
  "get_libraries self =
     bind_result (get_media_folders self) (\<lambda>libraries.
       Inr (filter (\<lambda>library.
              case CollectionType library of
                None \<Rightarrow> False
              | Some collection_type \<Rightarrow> collection_type \<in> set SUPPORTED_COLLECTION_TYPES)
            libraries))"

definition build_libraries :: "JellyfinSource \<Rightarrow> error + BrowseMediaSource" where
  "build_libraries self =
     (let base = BrowseMediaSource DOMAIN None MEDIA_CLASS_DIRECTORY (MEDIA_TYPE_NONE self)
                   JellyfinSource_name False True None (Some MEDIA_CLASS_DIRECTORY) None
      in bind_result (get_libraries self) (\<lambda>libraries.
         bind_result (map_result (\<lambda>library. build_library self library False) libraries) (\<lambda>cs.
           Inr (set_children MEDIA_CLASS_DIRECTORY cs base))))"

text \<open>
  \<^verbatim>\<open>async_browse_media\<close>: the identifier of the request is absent (\<open>None\<close>) or a
  string; \<^verbatim>\<open>not item.identifier\<close> holds of both the absent and the empty one.
\<close>

definition async_browse_media ::
  "JellyfinSource \<Rightarrow> string option \<Rightarrow> string list \<Rightarrow> error + BrowseMediaSource" where
  "async_browse_media self ident media_types =
     (if ident = None \<or> ident = Some []
      then build_libraries self
      else bind_result (get_item self (the ident)) (\<lambda>media_item.
           bind_result (getitem ITEM_KEY_TYPE (Type media_item)) (\<lambda>item_type.
             if item_type = ITEM_TYPE_LIBRARY self then build_library self media_item True
             else if item_type = ITEM_TYPE_ARTIST self then build_artist self media_item True
             else if item_type = ITEM_TYPE_ALBUM self then build_album self media_item True
             else Inl (BrowseError (''Unsupported item type '' @ item_type)))))"

subsection \<open>A small server, for concrete runs\<close>

text \<open>
  One music library with three artists, an album with two tracks, an album whose only
  track has a path without an extension, a video, a track without media sources, and a
  track whose file is named \<^verbatim>\<open>.mp3\<close> and nothing more.
  The guess of the MIME type is the table of the answers of \<^verbatim>\<open>mimetypes.guess_type\<close> on
  the paths of this server: \<^verbatim>\<open>audio/mpeg\<close> for the two files of the extension
  \<^verbatim>\<open>.mp3\<close>, and nothing for \<^verbatim>\<open>/music/demos/take\<close>, which has no extension, and for
  \<^verbatim>\<open>/music/.mp3\<close>, where the library reads the leading dot as part of the name of the
  file and finds no extension.
\<close>

definition example_guess :: "string \<Rightarrow> string option" where
  "example_guess path =
     map_of
       [ (''/music/arrival/01.mp3'', ''audio/mpeg''),
         (''/music/arrival/02.mp3'', ''audio/mpeg'') ] path"

definition example_item :: "string \<Rightarrow> string \<Rightarrow> string \<Rightarrow> item" where
  "example_item item_id item_name item_type =
     \<lparr> Id_field = Some item_id, Name = Some item_name, Type = Some item_type,
       CollectionType = None, IndexNumber = None, ImageTags = Some Map.empty,
       MediaType = None, MediaSources = None \<rparr>"

definition example_library :: item where
  "example_library =
     (example_item ''lib1'' ''Music'' ''CollectionFolder'')
       \<lparr> CollectionType := Some ''music'', ImageTags := Some [''Primary'' \<mapsto> ''c0ffee''] \<rparr>"

definition example_movies :: item where
  "example_movies =
     (example_item ''lib2'' ''Films'' ''CollectionFolder'') \<lparr> CollectionType := Some ''movies'' \<rparr>"

definition example_artists :: "item list" where
  "example_artists =
     [ example_item ''a1'' ''Queen'' ''MusicArtist'',
       (example_item ''a2'' ''Abba'' ''MusicArtist'') \<lparr> ImageTags := Some [''Primary'' \<mapsto> ''beef''] \<rparr>,
       example_item ''a3'' ''Muse'' ''MusicArtist'' ]"

definition example_track :: "string \<Rightarrow> string \<Rightarrow> int \<Rightarrow> string \<Rightarrow> item" where
  "example_track track_id track_name n path =
     (example_item track_id track_name ''Audio'')
       \<lparr> IndexNumber := Some n, MediaType := Some ''Audio'',
         MediaSources := Some [\<lparr> Path = Some path \<rparr>] \<rparr>"

definition example_album :: item where
  "example_album =
     (example_item ''al1'' ''Arrival'' ''MusicAlbum'') \<lparr> ImageTags := Some [''Primary'' \<mapsto> ''f00d''] \<rparr>"

definition example_tracks :: "item list" where
  "example_tracks =
     [ example_track ''t2'' ''Dancing Queen'' 2 ''/music/arrival/02.mp3'',
       (example_track ''t1'' ''When I Kissed the Teacher'' 1 ''/music/arrival/01.mp3'')
         \<lparr> ImageTags := Some [''Primary'' \<mapsto> ''cafe''] \<rparr> ]"

definition example_demo_album :: item where
  "example_demo_album = example_item ''al2'' ''Demos'' ''MusicAlbum''"

definition example_demo_tracks :: "item list" where
  "example_demo_tracks = [ example_track ''t9'' ''Take one'' 1 ''/music/demos/take'' ]"

definition example_video :: item where
  "example_video = (example_item ''v1'' ''Clip'' ''Video'') \<lparr> MediaType := Some ''Video'' \<rparr>"

definition example_bare_track :: item where
  "example_bare_track =
     (example_item ''t0'' ''Bare'' ''Audio'') \<lparr> MediaType := Some ''Audio'', MediaSources := Some [] \<rparr>"

definition example_hidden_track :: item where
  "example_hidden_track = example_track ''t3'' ''Hidden'' 3 ''/music/.mp3''"

definition example_source :: JellyfinSource where
  "example_source =
     \<lparr> url = ''http://jf.local:8096/'',
       auth_token = ''tok'',
       auth_user_id = ''u1'',
       app_device_id = ''dev1'',
       get_item = (\<lambda>item_id.
         case map_of
                [ (''lib1'', example_library), (''lib2'', example_movies),
                  (''a2'', example_artists ! 1), (''al1'', example_album),
                  (''al2'', example_demo_album), (''t1'', example_tracks ! 1),
                  (''v1'', example_video), (''t0'', example_bare_track),
                  (''t3'', example_hidden_track) ] item_id of
           None \<Rightarrow> Inl (ClientError ''not found'')
         | Some media_item \<Rightarrow> Inr media_item),
       get_media_folders = Inr [example_library],
       user_items = (\<lambda>handle query.
         case map_of
                [ ((''lib1'', ''MusicArtist''), example_artists),
                  ((''al1'', ''Audio''), example_tracks),
                  ((''al2'', ''Audio''), example_demo_tracks) ]
                (ParentId query, IncludeItemTypes query) of
           None \<Rightarrow> Inr []
         | Some found \<Rightarrow> Inr found),
       guess_type = example_guess,
       ITEM_TYPE_LIBRARY = ''CollectionFolder'',
       ITEM_TYPE_ARTIST = ''MusicArtist'',
       ITEM_TYPE_ALBUM = ''MusicAlbum'',
       ITEM_TYPE_AUDIO = ''Audio'',
       MEDIA_TYPE_NONE = [] \<rparr>"

section \<open>Auxiliary facts\<close>

lemma bind_result_Inr_iff:
  "bind_result m f = Inr y \<longleftrightarrow> (\<exists>x. m = Inr x \<and> f x = Inr y)"
  by (cases m) auto

lemma map_result_Inr_iff:
  "map_result f xs = Inr ys \<longleftrightarrow> map f xs = map Inr ys"
proof (induction xs arbitrary: ys)
  case Nil
  show ?case by auto
next
  case (Cons x xs)
  show ?case
  proof (cases ys)
    case Nil
    then show ?thesis by (auto simp: bind_result_Inr_iff)
  next
    case (Cons y ys')
    with Cons.IH [of ys'] show ?thesis by (auto simp: bind_result_Inr_iff)
  qed
qed




section \<open>Resolving an item to a stream\<close>

text \<open>
  Claim C2, as the code has it. When the list of media sources of an item is empty,
  the determination of the MIME type ends in the index error of \<^verbatim>\<open>[0]\<close>, which the
  source does not convert; resolving the item returns no stream, and when the item is
  audio and has an id the error of the resolve is that index error.
\<close>

theorem media_mime_type_no_sources:
  assumes "MediaSources media_item = Some []"
  shows "media_mime_type guess media_item = Inl IndexError
     \<and> (get_item self ident = Inr media_item \<longrightarrow>
          (\<exists>e. async_resolve_media self ident = Inl e)
          \<and> (MediaType media_item = Some ''Audio'' \<and> Id_field media_item \<noteq> None
               \<longrightarrow> async_resolve_media self ident = Inl IndexError))"
proof -
  have m: "media_mime_type guess media_item = Inl IndexError" for guess
    using assms by (simp add: media_mime_type_def)
  have "\<exists>e. async_resolve_media self ident = Inl e" if "get_item self ident = Inr media_item"
  proof (cases "get_stream_url self media_item")
    case (Inl e)
    with that show ?thesis by (simp add: async_resolve_media_def)
  next
    case (Inr u)
    with that m show ?thesis by (simp add: async_resolve_media_def)
  qed
  moreover have "async_resolve_media self ident = Inl IndexError"
    if "get_item self ident = Inr media_item" "MediaType media_item = Some ''Audio''"
      "Id_field media_item \<noteq> None"
    using that m
    by (auto simp: async_resolve_media_def get_stream_url_def get_audio_stream_url_def
        MEDIA_TYPE_AUDIO_def)
  ultimately show ?thesis using m by blast
qed

theorem media_mime_type_no_sources_witness:
  "MediaSources example_bare_track = Some []
   \<and> get_item example_source ''t0'' = Inr example_bare_track
   \<and> MediaType example_bare_track = Some ''Audio''
   \<and> Id_field example_bare_track \<noteq> None
   \<and> media_mime_type example_guess example_bare_track = Inl IndexError
   \<and> async_resolve_media example_source ''t0'' = Inl IndexError"
proof -
  have h1: "MediaSources example_bare_track = Some []"
    by (simp add: example_bare_track_def)
  have h2: "get_item example_source ''t0'' = Inr example_bare_track"
    by (simp add: example_source_def)
  have h3: "MediaType example_bare_track = Some ''Audio''"
    by (simp add: example_bare_track_def)
  have h4: "Id_field example_bare_track \<noteq> None"
    by (simp add: example_bare_track_def example_item_def)
  from media_mime_type_no_sources [OF h1, of example_guess example_source "''t0''"] h1 h2 h3 h4
  show ?thesis by simp
qed

text \<open>
  The claim as the spec words it fails on the track \<^verbatim>\<open>t0\<close> of the example server,
  whose list of media sources is empty: the resolve ends in \<^verbatim>\<open>IndexError\<close>, which is
  not the \<^verbatim>\<open>BrowseError\<close> raised on a failed guess.
\<close>

theorem resolve_no_sources_counterexample:
  "MediaSources example_bare_track = Some []
   \<and> get_item example_source ''t0'' = Inr example_bare_track
   \<and> async_resolve_media example_source ''t0'' = Inl IndexError
   \<and> \<not> is_BrowseError IndexError"
  by (simp add: async_resolve_media_def get_stream_url_def get_audio_stream_url_def
      media_mime_type_def MEDIA_TYPE_AUDIO_def example_source_def example_bare_track_def
      example_item_def)

text \<open>
  Claim C3, as the code has it. An audio item that has an id and a first media source with
  a path resolves to the stream URL of the template (base URL, \<^verbatim>\<open>Audio/\<close>, the id of the
  item, then the user id, the device id, the API key and the bitrate 140000000) and to the
  MIME type that \<^verbatim>\<open>mimetypes.guess_type\<close> answers on the path, \<^verbatim>\<open>audio/mpeg\<close> where that
  is its answer; where it answers nothing, the resolve raises the \<^verbatim>\<open>BrowseError\<close>
  "Unable to determine mime type for path", with the path.
\<close>

theorem resolve_audio_item:
  assumes "get_item self ident = Inr media_item"
    and "MediaType media_item = Some ''Audio''"
    and "Id_field media_item = Some item_id"
    and "MediaSources media_item = Some (media_source # rest)"
    and "Path media_source = Some path"
  shows "async_resolve_media self ident =
           (case guess_type self path of
              Some mime_type \<Rightarrow>
                Inr (PlayMedia
                      (url self @ ''Audio/'' @ item_id @ ''/universal?UserId='' @ auth_user_id self
                       @ ''&DeviceId='' @ app_device_id self @ ''&api_key='' @ auth_token self
                       @ ''&MaxStreamingBitrate=140000000'')
                      mime_type)
            | None \<Rightarrow> Inl (BrowseError (''Unable to determine mime type for path '' @ path)))"
  using assms
  by (simp add: async_resolve_media_def get_stream_url_def get_audio_stream_url_def
      media_mime_type_def MEDIA_TYPE_AUDIO_def MAX_STREAMING_BITRATE_def split: option.splits)

theorem resolve_audio_item_witness:
  "get_item example_source ''t1'' = Inr (example_tracks ! 1)
   \<and> MediaType (example_tracks ! 1) = Some ''Audio''
   \<and> Id_field (example_tracks ! 1) = Some ''t1''
   \<and> MediaSources (example_tracks ! 1) = Some [\<lparr> Path = Some ''/music/arrival/01.mp3'' \<rparr>]
   \<and> suffix ''.mp3'' ''/music/arrival/01.mp3''
   \<and> guess_type example_source ''/music/arrival/01.mp3'' = Some ''audio/mpeg''
   \<and> async_resolve_media example_source ''t1'' =
       Inr (PlayMedia
             ''http://jf.local:8096/Audio/t1/universal?UserId=u1&DeviceId=dev1&api_key=tok&MaxStreamingBitrate=140000000''
             ''audio/mpeg'')"
proof -
  have h1: "get_item example_source ''t1'' = Inr (example_tracks ! 1)"
    by (simp add: example_source_def)
  have h2: "MediaType (example_tracks ! 1) = Some ''Audio''"
    by (simp add: example_tracks_def example_track_def)
  have h3: "Id_field (example_tracks ! 1) = Some ''t1''"
    by (simp add: example_tracks_def example_track_def example_item_def)
  have h4: "MediaSources (example_tracks ! 1) = Some (\<lparr> Path = Some ''/music/arrival/01.mp3'' \<rparr> # [])"
    by (simp add: example_tracks_def example_track_def)
  have h5: "Path \<lparr> Path = Some ''/music/arrival/01.mp3'' \<rparr> = Some ''/music/arrival/01.mp3''"
    by simp
  have h6: "suffix ''.mp3'' ''/music/arrival/01.mp3''"
    by (simp add: suffix_to_prefix)
  have h7: "guess_type example_source ''/music/arrival/01.mp3'' = Some ''audio/mpeg''"
    by (simp add: example_source_def example_guess_def)
  from resolve_audio_item [OF h1 h2 h3 h4 h5] h1 h2 h3 h4 h6 h7
  show ?thesis by (simp add: example_source_def)
qed

text \<open>
  The claim as the spec words it, of every path ending in \<^verbatim>\<open>.mp3\<close>, fails on the track
  \<^verbatim>\<open>t3\<close> of the example server: its path \<^verbatim>\<open>/music/.mp3\<close> ends in \<^verbatim>\<open>.mp3\<close>, the
  guess answers nothing on it, and the resolve raises the error of the MIME type.
\<close>

theorem resolve_mp3_counterexample:
  "get_item example_source ''t3'' = Inr example_hidden_track
   \<and> MediaType example_hidden_track = Some ''Audio''
   \<and> MediaSources example_hidden_track = Some [\<lparr> Path = Some ''/music/.mp3'' \<rparr>]
   \<and> suffix ''.mp3'' ''/music/.mp3''
   \<and> guess_type example_source ''/music/.mp3'' = None
   \<and> async_resolve_media example_source ''t3''
       = Inl (BrowseError ''Unable to determine mime type for path /music/.mp3'')"
  by (simp add: async_resolve_media_def get_stream_url_def get_audio_stream_url_def
      media_mime_type_def MEDIA_TYPE_AUDIO_def example_source_def example_hidden_track_def
      example_track_def example_item_def example_guess_def suffix_to_prefix)

text \<open>
  Claim C6. Resolving an item whose media type is not \<^verbatim>\<open>Audio\<close> raises the
  \<^verbatim>\<open>BrowseError\<close> "Unsupported media type", with the media type of the item in its
  message; being an error, the result holds no stream URL.
\<close>

theorem resolve_unsupported_media_type:
  assumes "get_item self ident = Inr media_item"
    and "MediaType media_item = Some media_type"
    and "media_type \<noteq> ''Audio''"
  shows "async_resolve_media self ident = Inl (BrowseError (''Unsupported media type '' @ media_type))"
  using assms by (simp add: async_resolve_media_def get_stream_url_def MEDIA_TYPE_AUDIO_def)

theorem resolve_unsupported_media_type_witness:
  "get_item example_source ''v1'' = Inr example_video
   \<and> MediaType example_video = Some ''Video''
   \<and> ''Video'' \<noteq> ''Audio''
   \<and> async_resolve_media example_source ''v1'' = Inl (BrowseError ''Unsupported media type Video'')"
proof -
  have h1: "get_item example_source ''v1'' = Inr example_video"
    by (simp add: example_source_def)
  have h2: "MediaType example_video = Some ''Video''"
    by (simp add: example_video_def)
  have h3: "''Video'' \<noteq> ''Audio''" by simp
  from resolve_unsupported_media_type [OF h1 h2 h3] h1 h2 h3 show ?thesis by simp
qed

section \<open>Browsing\<close>

text \<open>
  Claim C7. Browsing a library by its id, when the collection type of the library is
  not \<^verbatim>\<open>music\<close>, raises the \<^verbatim>\<open>BrowseError\<close> "Unsupported collection type",
  with the collection type of the library in its message.
\<close>

theorem browse_unsupported_collection_type:
  assumes "ident \<noteq> []"
    and "get_item self ident = Inr library"
    and "Type library = Some (ITEM_TYPE_LIBRARY self)"
    and "CollectionType library = Some collection_type"
    and "collection_type \<noteq> ''music''"
  shows "async_browse_media self (Some ident) media_types
         = Inl (BrowseError (''Unsupported collection type '' @ collection_type))"
  using assms
  by (simp add: async_browse_media_def build_library_def COLLECTION_TYPE_MUSIC_def)

theorem browse_unsupported_collection_type_witness:
  "''lib2'' \<noteq> []
   \<and> get_item example_source ''lib2'' = Inr example_movies
   \<and> Type example_movies = Some (ITEM_TYPE_LIBRARY example_source)
   \<and> CollectionType example_movies = Some ''movies''
   \<and> ''movies'' \<noteq> ''music''
   \<and> async_browse_media example_source (Some ''lib2'') [''Audio'']
       = Inl (BrowseError ''Unsupported collection type movies'')"
proof -
  have h1: "''lib2'' \<noteq> []" by simp
  have h2: "get_item example_source ''lib2'' = Inr example_movies"
    by (simp add: example_source_def)
  have h3: "Type example_movies = Some (ITEM_TYPE_LIBRARY example_source)"
    by (simp add: example_movies_def example_item_def example_source_def)
  have h4: "CollectionType example_movies = Some ''movies''"
    by (simp add: example_movies_def)
  have h5: "''movies'' \<noteq> ''music''" by simp
  from browse_unsupported_collection_type [OF h1 h2 h3 h4 h5, of "[''Audio'']"] h1 h2 h3 h4 h5
  show ?thesis by simp
qed

text \<open>
  Claim C10. The argument \<^verbatim>\<open>media_types\<close> of \<^verbatim>\<open>async_browse_media\<close> is never read:
  two calls that differ in it only return the same tree or raise the same error.
\<close>

theorem browse_ignores_media_types:
  "async_browse_media self ident media_types = async_browse_media self ident media_types'"
  by (simp add: async_browse_media_def)

subsection \<open>What the builders return\<close>

lemma getitem_Inr_iff: "getitem k v = Inr x \<longleftrightarrow> v = Some x"
  by (cases v) auto


















section \<open>Thumbnails\<close>

lemma build_music_library_Inr:
  assumes "build_music_library self library include_children = Inr node"
  shows "media_class node = MEDIA_CLASS_DIRECTORY" and "\<not> can_play node" and "can_expand node"
    and "thumbnail node = None"
  using assms
  by (auto simp: build_music_library_def bind_result_Inr_iff getitem_Inr_iff Let_def
      split: if_splits)

lemma build_libraries_thumbnail:
  assumes "build_libraries self = Inr root"
  shows "thumbnail root = None"
  using assms by (auto simp: build_libraries_def bind_result_Inr_iff Let_def)

lemma get_thumbnail_url_Inr:
  assumes "Id_field media_item = Some item_id" and "ImageTags media_item = Some image_tags"
  shows "get_thumbnail_url self media_item =
           Inr (map_option
                  (\<lambda>tag. url self @ ''Items/'' @ item_id @ ''/Images/Primary?Tag='' @ tag
                          @ ''&api_key='' @ auth_token self)
                  (image_tags ''Primary''))"
  using assms by (simp add: get_thumbnail_url_def split: option.splits)

lemma build_artist_thumbnail:
  assumes "build_artist self artist include_children = Inr node"
    and "get_thumbnail_url self artist = Inr th"
  shows "thumbnail node = th"
  using assms
  by (auto simp: build_artist_def bind_result_Inr_iff getitem_Inr_iff Let_def split: if_splits)

lemma build_album_thumbnail:
  assumes "build_album self album include_children = Inr node"
    and "get_thumbnail_url self album = Inr th"
  shows "thumbnail node = th"
  using assms
  by (auto simp: build_album_def bind_result_Inr_iff getitem_Inr_iff Let_def split: if_splits)

lemma build_track_thumbnail:
  assumes "build_track self track = Inr node"
    and "get_thumbnail_url self track = Inr th"
  shows "thumbnail node = th"
  using assms
  by (auto simp: build_track_def bind_result_Inr_iff getitem_Inr_iff)

text \<open>
  Claim C8, as the code has it. For an item that carries an id and image tags, the
  thumbnail URL the source computes is present exactly when the image tags hold an entry
  \<^verbatim>\<open>Primary\<close>, and is then the base URL, \<^verbatim>\<open>Items/\<close>, the id,
  \<^verbatim>\<open>/Images/Primary?Tag=\<close>, the tag, \<^verbatim>\<open>&api_key=\<close> and the API key; no error is
  raised when the entry is absent. The node built of the item as an artist, an album or a
  track carries that thumbnail. The node built of it as a library carries none, and
  neither does the root node of the libraries.
\<close>

theorem thumbnail_of_built_node:
  assumes "Id_field media_item = Some item_id"
    and "ImageTags media_item = Some image_tags"
  shows "\<exists>th.
           get_thumbnail_url self media_item = Inr th
           \<and> (th = None \<longleftrightarrow> image_tags ''Primary'' = None)
           \<and> (\<forall>tag. image_tags ''Primary'' = Some tag \<longrightarrow>
                 th = Some (url self @ ''Items/'' @ item_id @ ''/Images/Primary?Tag='' @ tag
                            @ ''&api_key='' @ auth_token self))
           \<and> (\<forall>include_children node.
                 build_artist self media_item include_children = Inr node \<longrightarrow> thumbnail node = th)
           \<and> (\<forall>include_children node.
                 build_album self media_item include_children = Inr node \<longrightarrow> thumbnail node = th)
           \<and> (\<forall>node. build_track self media_item = Inr node \<longrightarrow> thumbnail node = th)
           \<and> (\<forall>include_children node.
                 build_music_library self media_item include_children = Inr node
                 \<longrightarrow> thumbnail node = None)
           \<and> (\<forall>root. build_libraries self = Inr root \<longrightarrow> thumbnail root = None)"
proof -
  let ?th = "map_option
               (\<lambda>tag. url self @ ''Items/'' @ item_id @ ''/Images/Primary?Tag='' @ tag
                       @ ''&api_key='' @ auth_token self)
               (image_tags ''Primary'')"
  have th: "get_thumbnail_url self media_item = Inr ?th"
    by (rule get_thumbnail_url_Inr [OF assms])
  have "?th = None \<longleftrightarrow> image_tags ''Primary'' = None" by simp
  moreover have "\<forall>tag. image_tags ''Primary'' = Some tag \<longrightarrow>
                 ?th = Some (url self @ ''Items/'' @ item_id @ ''/Images/Primary?Tag='' @ tag
                            @ ''&api_key='' @ auth_token self)" by simp
  moreover have "\<forall>include_children node.
      build_artist self media_item include_children = Inr node \<longrightarrow> thumbnail node = ?th"
    using build_artist_thumbnail [OF _ th] by blast
  moreover have "\<forall>include_children node.
      build_album self media_item include_children = Inr node \<longrightarrow> thumbnail node = ?th"
    using build_album_thumbnail [OF _ th] by blast
  moreover have "\<forall>node. build_track self media_item = Inr node \<longrightarrow> thumbnail node = ?th"
    using build_track_thumbnail [OF _ th] by blast
  moreover have "\<forall>include_children node.
      build_music_library self media_item include_children = Inr node \<longrightarrow> thumbnail node = None"
    using build_music_library_Inr(4) by blast
  moreover have "\<forall>root. build_libraries self = Inr root \<longrightarrow> thumbnail root = None"
    by (rule allI) (rule impI, erule build_libraries_thumbnail)
  ultimately show ?thesis using th by blast
qed

theorem thumbnail_of_built_node_witness:
  "Id_field (example_artists ! 1) = Some ''a2''
   \<and> ImageTags (example_artists ! 1) = Some [''Primary'' \<mapsto> ''beef'']
   \<and> get_thumbnail_url example_source (example_artists ! 1)
       = Inr (Some ''http://jf.local:8096/Items/a2/Images/Primary?Tag=beef&api_key=tok'')
   \<and> map_sum id thumbnail (build_artist example_source (example_artists ! 1) False)
       = Inr (Some ''http://jf.local:8096/Items/a2/Images/Primary?Tag=beef&api_key=tok'')"
proof -
  have h1: "Id_field (example_artists ! 1) = Some ''a2''"
    by (simp add: example_artists_def example_item_def)
  have h2: "ImageTags (example_artists ! 1) = Some [''Primary'' \<mapsto> ''beef'']"
    by (simp add: example_artists_def example_item_def)
  have name: "Name (example_artists ! 1) = Some ''Abba''"
    by (simp add: example_artists_def example_item_def)
  from thumbnail_of_built_node [OF h1 h2, of example_source] obtain th
    where th: "get_thumbnail_url example_source (example_artists ! 1) = Inr th"
      and url: "th = Some (url example_source @ ''Items/'' @ ''a2'' @ ''/Images/Primary?Tag=''
                           @ ''beef'' @ ''&api_key='' @ auth_token example_source)"
      and artist: "\<forall>include_children node.
             build_artist example_source (example_artists ! 1) include_children = Inr node
             \<longrightarrow> thumbnail node = th"
    by auto
  from url have url': "th = Some ''http://jf.local:8096/Items/a2/Images/Primary?Tag=beef&api_key=tok''"
    by (simp add: example_source_def)
  obtain node where node: "build_artist example_source (example_artists ! 1) False = Inr node"
    using h1 name th by (simp add: build_artist_def)
  with artist have "thumbnail node = th" by blast
  with node th url' h1 h2 show ?thesis by simp
qed

text \<open>
  The claim as the spec words it, of every item, fails on the music library of the example
  server: its image tags hold an entry \<^verbatim>\<open>Primary\<close>, and the node built of it has no
  thumbnail.
\<close>

theorem library_thumbnail_counterexample:
  "ImageTags example_library = Some [''Primary'' \<mapsto> ''c0ffee'']
   \<and> get_item example_source ''lib1'' = Inr example_library
   \<and> map_sum id thumbnail (build_music_library example_source example_library False) = Inr None
   \<and> map_sum id thumbnail (async_browse_media example_source (Some ''lib1'') [''Audio'']) = Inr None"
  by (simp add: async_browse_media_def build_library_def build_music_library_def build_artists_def
      build_artist_def get_children_def get_thumbnail_url_def sorted_by_def
      COLLECTION_TYPE_MUSIC_def
      example_source_def example_library_def example_artists_def example_item_def)


section \<open>Shape of the tree\<close>

lemma all_nodes_unfold:
  "all_nodes node =
     node # (case children node of None \<Rightarrow> [] | Some cs \<Rightarrow> concat (map all_nodes cs))"
  by (cases node) (simp split: option.splits)

lemma all_nodes_leaf: "children node = None \<Longrightarrow> all_nodes node = [node]"
  by (subst all_nodes_unfold) simp

lemma all_nodes_flat:
  assumes "children node = Some cs" and "\<forall>c\<in>set cs. all_nodes c = [c]"
  shows "set (all_nodes node) = insert node (set cs)"
proof -
  from assms(2) have "concat (map all_nodes cs) = cs" by (induction cs) simp_all
  with assms(1) show ?thesis by (subst all_nodes_unfold) simp
qed

lemma map_result_set:
  assumes "map_result f xs = Inr ys" and "y \<in> set ys"
  shows "\<exists>x\<in>set xs. f x = Inr y"
proof -
  from assms(1) have "map f xs = map Inr ys" by (simp add: map_result_Inr_iff)
  moreover from assms(2) have "Inr y \<in> set (map Inr ys)" by simp
  ultimately have "Inr y \<in> set (map f xs)" by simp
  then show ?thesis by auto
qed

lemma build_track_node:
  assumes "build_track self track = Inr node"
  shows "children node = None \<and> can_play node \<and> \<not> can_expand node
         \<and> media_class node = MEDIA_CLASS_TRACK"
  using assms by (auto simp: build_track_def bind_result_Inr_iff getitem_Inr_iff)

lemma build_album_node:
  assumes "build_album self album include_children = Inr node"
  shows "\<not> can_play node \<and> can_expand node \<and> media_class node = MEDIA_CLASS_ALBUM
         \<and> (if include_children
             then \<exists>album_id cs. Id_field album = Some album_id
                    \<and> build_tracks self album_id = Inr cs \<and> children node = Some cs
             else children node = None)"
  using assms
  by (auto simp: build_album_def bind_result_Inr_iff getitem_Inr_iff Let_def split: if_splits)

lemma build_artist_node:
  assumes "build_artist self artist include_children = Inr node"
  shows "\<not> can_play node \<and> can_expand node \<and> media_class node = MEDIA_CLASS_ARTIST
         \<and> (if include_children
             then \<exists>artist_id cs. Id_field artist = Some artist_id
                    \<and> build_albums self artist_id = Inr cs \<and> children node = Some cs
             else children node = None)"
  using assms
  by (auto simp: build_artist_def bind_result_Inr_iff getitem_Inr_iff Let_def split: if_splits)

lemma build_music_library_node:
  assumes "build_music_library self library include_children = Inr node"
  shows "\<not> can_play node \<and> can_expand node \<and> media_class node = MEDIA_CLASS_DIRECTORY
         \<and> (if include_children
             then \<exists>library_id cs. Id_field library = Some library_id
                    \<and> build_artists self library_id = Inr cs \<and> children node = Some cs
             else children node = None)"
  using assms
  by (auto simp: build_music_library_def bind_result_Inr_iff getitem_Inr_iff Let_def
      split: if_splits)

lemma build_library_node:
  assumes "build_library self library include_children = Inr node"
  shows "build_music_library self library include_children = Inr node"
  using assms
  by (auto simp: build_library_def bind_result_Inr_iff split: if_splits)

lemma build_tracks_nodes:
  assumes "build_tracks self album_id = Inr cs" and "c \<in> set cs"
  shows "children c = None \<and> can_play c \<and> \<not> can_expand c \<and> media_class c = MEDIA_CLASS_TRACK"
proof -
  from assms(1) obtain ordered where "map_result (build_track self) ordered = Inr cs"
    by (auto simp: build_tracks_def bind_result_Inr_iff)
  from map_result_set [OF this assms(2)] obtain t where "build_track self t = Inr c" by blast
  then show ?thesis by (rule build_track_node)
qed

lemma build_albums_nodes:
  assumes "build_albums self artist_id = Inr cs" and "c \<in> set cs"
  shows "children c = None \<and> \<not> can_play c \<and> can_expand c \<and> media_class c = MEDIA_CLASS_ALBUM"
proof -
  from assms(1) obtain ordered
    where "map_result (\<lambda>album. build_album self album False) ordered = Inr cs"
    by (auto simp: build_albums_def bind_result_Inr_iff)
  from map_result_set [OF this assms(2)] obtain a where "build_album self a False = Inr c"
    by blast
  from build_album_node [OF this] show ?thesis by simp
qed

lemma build_artists_nodes:
  assumes "build_artists self library_id = Inr cs" and "c \<in> set cs"
  shows "children c = None \<and> \<not> can_play c \<and> can_expand c \<and> media_class c = MEDIA_CLASS_ARTIST"
proof -
  from assms(1) obtain ordered
    where "map_result (\<lambda>artist. build_artist self artist False) ordered = Inr cs"
    by (auto simp: build_artists_def bind_result_Inr_iff)
  from map_result_set [OF this assms(2)] obtain a where "build_artist self a False = Inr c"
    by blast
  from build_artist_node [OF this] show ?thesis by simp
qed

lemma build_libraries_node:
  assumes "build_libraries self = Inr root"
  shows "identifier_of root = None \<and> \<not> can_play root \<and> can_expand root
         \<and> media_class root = MEDIA_CLASS_DIRECTORY
         \<and> (\<exists>libraries cs. get_libraries self = Inr libraries
               \<and> map_result (\<lambda>library. build_library self library False) libraries = Inr cs
               \<and> children root = Some cs)"
  using assms
  by (auto simp: build_libraries_def bind_result_Inr_iff Let_def)

text \<open>A node and its children, the children being leaves of the tree built.\<close>

lemma flat_tree_nodes:
  assumes "P node" and "children node = Some cs"
    and "\<And>c. c \<in> set cs \<Longrightarrow> children c = None \<and> P c"
  shows "\<forall>n\<in>set (all_nodes node). P n"
proof -
  from assms(3) have "\<forall>c\<in>set cs. all_nodes c = [c]" by (simp add: all_nodes_leaf)
  from all_nodes_flat [OF assms(2) this] assms(1,3) show ?thesis by auto
qed

lemma browse_nodes:
  assumes "async_browse_media self ident media_types = Inr root"
  shows "\<forall>n\<in>set (all_nodes root).
           can_play n = (media_class n = MEDIA_CLASS_TRACK)
           \<and> can_expand n = (media_class n \<noteq> MEDIA_CLASS_TRACK)"
    (is "\<forall>n\<in>_. ?P n")
proof (cases "ident = None \<or> ident = Some []")
  case True
  with assms have "build_libraries self = Inr root" by (simp add: async_browse_media_def)
  from build_libraries_node [OF this] obtain libraries cs
    where root: "\<not> can_play root" "can_expand root" "media_class root = MEDIA_CLASS_DIRECTORY"
      and built: "map_result (\<lambda>library. build_library self library False) libraries = Inr cs"
      and ch: "children root = Some cs"
    by blast
  have "children c = None \<and> ?P c" if "c \<in> set cs" for c
  proof -
    from map_result_set [OF built that] obtain l where "build_library self l False = Inr c"
      by blast
    from build_music_library_node [OF build_library_node [OF this]] show ?thesis by simp
  qed
  with root ch show ?thesis by (intro flat_tree_nodes [where cs = cs]) simp_all
next
  case False
  with assms obtain media_item item_type
    where dispatch: "(if item_type = ITEM_TYPE_LIBRARY self then build_library self media_item True
             else if item_type = ITEM_TYPE_ARTIST self then build_artist self media_item True
             else if item_type = ITEM_TYPE_ALBUM self then build_album self media_item True
             else Inl (BrowseError (''Unsupported item type '' @ item_type))) = Inr root"
    by (auto simp: async_browse_media_def bind_result_Inr_iff)
  consider (library) "build_library self media_item True = Inr root"
    | (artist) "build_artist self media_item True = Inr root"
    | (album) "build_album self media_item True = Inr root"
    using dispatch by (auto split: if_splits)
  then show ?thesis
  proof cases
    case library
    from build_music_library_node [OF build_library_node [OF this]] obtain library_id cs
      where root: "\<not> can_play root" "can_expand root" "media_class root = MEDIA_CLASS_DIRECTORY"
        and cs: "build_artists self library_id = Inr cs" and ch: "children root = Some cs"
      by auto
    have "children c = None \<and> ?P c" if "c \<in> set cs" for c
      using build_artists_nodes [OF cs that] by simp
    with root ch show ?thesis by (intro flat_tree_nodes [where cs = cs]) simp_all
  next
    case artist
    from build_artist_node [OF this] obtain artist_id cs
      where root: "\<not> can_play root" "can_expand root" "media_class root = MEDIA_CLASS_ARTIST"
        and cs: "build_albums self artist_id = Inr cs" and ch: "children root = Some cs"
      by auto
    have "children c = None \<and> ?P c" if "c \<in> set cs" for c
      using build_albums_nodes [OF cs that] by simp
    with root ch show ?thesis by (intro flat_tree_nodes [where cs = cs]) simp_all
  next
    case album
    from build_album_node [OF this] obtain album_id cs
      where root: "\<not> can_play root" "can_expand root" "media_class root = MEDIA_CLASS_ALBUM"
        and cs: "build_tracks self album_id = Inr cs" and ch: "children root = Some cs"
      by auto
    have "children c = None \<and> ?P c" if "c \<in> set cs" for c
      using build_tracks_nodes [OF cs that] by simp
    with root ch show ?thesis by (intro flat_tree_nodes [where cs = cs]) simp_all
  qed
qed

text \<open>
  Claim C9. In every tree a browse returns, every node at any depth is either playable or
  expandable and not both: a track node is playable and not expandable, every other node
  (root, library, artist, album) is expandable and not playable. The root node, returned
  when the identifier is absent or empty, has no identifier and is not playable.
\<close>

theorem browse_nodes_play_xor_expand:
  assumes "async_browse_media self ident media_types = Inr root"
  shows "(\<forall>n\<in>set (all_nodes root).
            (can_play n \<noteq> can_expand n)
            \<and> (media_class n = MEDIA_CLASS_TRACK \<longrightarrow> can_play n \<and> \<not> can_expand n)
            \<and> (media_class n \<noteq> MEDIA_CLASS_TRACK \<longrightarrow> can_expand n \<and> \<not> can_play n))
         \<and> (ident = None \<or> ident = Some [] \<longrightarrow> identifier_of root = None \<and> \<not> can_play root)"
proof -
  have "identifier_of root = None \<and> \<not> can_play root" if "ident = None \<or> ident = Some []"
  proof -
    from assms that have "build_libraries self = Inr root" by (simp add: async_browse_media_def)
    from build_libraries_node [OF this] show ?thesis by simp
  qed
  with browse_nodes [OF assms] show ?thesis by blast
qed


theorem browse_nodes_play_xor_expand_witness:
  "(\<exists>root.
      async_browse_media example_source (Some ''al1'') [''Audio''] = Inr root
      \<and> map media_class (all_nodes root) = [MEDIA_CLASS_ALBUM, MEDIA_CLASS_TRACK, MEDIA_CLASS_TRACK]
      \<and> map can_play (all_nodes root) = [False, True, True]
      \<and> list_all (\<lambda>n. can_play n \<noteq> can_expand n) (all_nodes root))
   \<and> (\<exists>root.
      async_browse_media example_source None [''Audio''] = Inr root
      \<and> identifier_of root = None \<and> \<not> can_play root)"
proof -
  have "\<exists>album.
      async_browse_media example_source (Some ''al1'') [''Audio''] = Inr album
      \<and> map media_class (all_nodes album)
          = [MEDIA_CLASS_ALBUM, MEDIA_CLASS_TRACK, MEDIA_CLASS_TRACK]
      \<and> map can_play (all_nodes album) = [False, True, True]"
    by (simp add: async_browse_media_def build_album_def build_tracks_def build_track_def
        get_children_def get_thumbnail_url_def media_mime_type_def sorted_by_def
        example_source_def example_album_def example_tracks_def example_track_def
        example_item_def example_guess_def suffix_to_prefix)
  then obtain album
    where album: "async_browse_media example_source (Some ''al1'') [''Audio''] = Inr album"
      and classes: "map media_class (all_nodes album)
                    = [MEDIA_CLASS_ALBUM, MEDIA_CLASS_TRACK, MEDIA_CLASS_TRACK]"
      and plays: "map can_play (all_nodes album) = [False, True, True]"
    by (elim exE conjE)
  have "\<exists>root. async_browse_media example_source None [''Audio''] = Inr root"
    by (simp add: async_browse_media_def build_libraries_def get_libraries_def
        SUPPORTED_COLLECTION_TYPES_def COLLECTION_TYPE_MOVIES_def COLLECTION_TYPE_TVSHOWS_def
        example_source_def example_library_def example_item_def)
  then obtain root where root: "async_browse_media example_source None [''Audio''] = Inr root"
    by (elim exE)
  from browse_nodes_play_xor_expand [OF album]
  have xor: "list_all (\<lambda>n. can_play n \<noteq> can_expand n) (all_nodes album)"
    by (simp add: list_all_iff)
  from browse_nodes_play_xor_expand [OF root]
  have top: "identifier_of root = None \<and> \<not> can_play root" by simp
  have "\<exists>root.
      async_browse_media example_source (Some ''al1'') [''Audio''] = Inr root
      \<and> map media_class (all_nodes root) = [MEDIA_CLASS_ALBUM, MEDIA_CLASS_TRACK, MEDIA_CLASS_TRACK]
      \<and> map can_play (all_nodes root) = [False, True, True]
      \<and> list_all (\<lambda>n. can_play n \<noteq> can_expand n) (all_nodes root)"
    using album classes plays xor by (intro exI [of _ album] conjI)
  moreover have "\<exists>root.
      async_browse_media example_source None [''Audio''] = Inr root
      \<and> identifier_of root = None \<and> \<not> can_play root"
    using root top by (intro exI [of _ root]) simp
  ultimately show ?thesis by (rule conjI)
qed

section \<open>The root listing\<close>

lemma build_library_unsupported:
  assumes "CollectionType library = Some collection_type"
    and "collection_type \<in> set SUPPORTED_COLLECTION_TYPES"
  shows "build_library self library include_children
         = Inl (BrowseError (''Unsupported collection type '' @ collection_type))"
proof -
  from assms(2) have "collection_type \<noteq> COLLECTION_TYPE_MUSIC"
    by (auto simp: SUPPORTED_COLLECTION_TYPES_def COLLECTION_TYPE_MOVIES_def
        COLLECTION_TYPE_TVSHOWS_def COLLECTION_TYPE_MUSIC_def)
  with assms(1) show ?thesis by (simp add: build_library_def)
qed

text \<open>
  The root listing is never populated: a library that passes the filter of
  \<^verbatim>\<open>_get_libraries\<close> is one \<^verbatim>\<open>_build_library\<close> refuses.
\<close>

lemma root_browse_children_empty:
  assumes "build_libraries self = Inr root"
  shows "children root = Some []"
proof -
  from build_libraries_node [OF assms] obtain libraries cs
    where libs: "get_libraries self = Inr libraries"
      and built: "map_result (\<lambda>library. build_library self library False) libraries = Inr cs"
      and ch: "children root = Some cs"
    by blast
  have "libraries = []"
  proof (cases libraries)
    case Nil
    then show ?thesis .
  next
    case (Cons l ls)
    from libs have "\<exists>folders. libraries = filter (\<lambda>library.
              case CollectionType library of
                None \<Rightarrow> False
              | Some collection_type \<Rightarrow> collection_type \<in> set SUPPORTED_COLLECTION_TYPES)
            folders"
      by (auto simp: get_libraries_def bind_result_Inr_iff)
    moreover from Cons have "l \<in> set libraries" by simp
    ultimately obtain ct
      where "CollectionType l = Some ct" "ct \<in> set SUPPORTED_COLLECTION_TYPES"
      by (auto split: option.splits)
    from build_library_unsupported [OF this] have "\<exists>e. build_library self l False = Inl e"
      by blast
    with built Cons show ?thesis by auto
  qed
  with built ch show ?thesis by simp
qed



text \<open>
  Claim C1, run on the example server, whose only media folder is a music library: the
  filter of \<^verbatim>\<open>_get_libraries\<close> keeps the collection types of
  \<^verbatim>\<open>SUPPORTED_COLLECTION_TYPES\<close>, movies and tvshows, so the music library is dropped
  and the root node has no child, although browsing the same library by its id lists its
  three artists.
\<close>

theorem root_browse_omits_music_library:
  "get_media_folders example_source = Inr [example_library]
   \<and> CollectionType example_library = Some COLLECTION_TYPE_MUSIC
   \<and> get_libraries example_source = Inr []
   \<and> async_browse_media example_source None [''Audio'']
       = Inr (BrowseMediaSource ''jellyfin'' None MEDIA_CLASS_DIRECTORY [] ''Jellyfin''
                False True None (Some MEDIA_CLASS_DIRECTORY) (Some []))
   \<and> map_sum id (map_option length \<circ> children)
        (async_browse_media example_source (Some ''lib1'') [''Audio'']) = Inr (Some 3)"
  by (simp add: async_browse_media_def build_libraries_def get_libraries_def
      build_library_def build_music_library_def build_artists_def build_artist_def
      get_children_def get_thumbnail_url_def sorted_by_def
      SUPPORTED_COLLECTION_TYPES_def COLLECTION_TYPE_MOVIES_def COLLECTION_TYPE_TVSHOWS_def
      COLLECTION_TYPE_MUSIC_def DOMAIN_def JellyfinSource_name_def
      example_source_def example_library_def example_artists_def example_item_def)

end
